theory Spec2Isabelle
  imports Complex_Main
begin

section \<open>NumPy arrays, idealised over the reals\<close>

text \<open>
  The calibration module \<^verbatim>\<open>ai_model/confidence_calibration.py\<close> computes on NumPy arrays of
  floats. An array is modelled with its shape: a one-dimensional array is a list, a
  two-dimensional array of shape \<open>(N, C)\<close> is its column count \<open>C\<close> and its \<open>N\<close> rows (so that
  the shape \<open>(0, C)\<close> keeps its \<open>C\<close>). Floating-point numbers are idealised as reals; the value
  \<^verbatim>\<open>nan\<close> that \<^verbatim>\<open>np.mean\<close> returns on an empty array is \<open>None\<close>. Every exception the code can
  raise is a value of \<open>error\<close>.
\<close>

datatype error =
  IndexError | ValueError | AxisError | ZeroDivisionError | TypeError | AttributeError | OSError

datatype ndarray = Arr1 "real list" | Arr2 nat "real list list"

fun shape :: "ndarray \<Rightarrow> nat list" where
  "shape (Arr1 xs) = [length xs]"
| "shape (Arr2 c rs) = [length rs, c]"

fun len :: "ndarray \<Rightarrow> nat" where
  "len (Arr1 xs) = length xs"
| "len (Arr2 c rs) = length rs"

fun flat :: "ndarray \<Rightarrow> real list" where
  "flat (Arr1 xs) = xs"
| "flat (Arr2 c rs) = concat rs"


text \<open>\<^verbatim>\<open>a.shape[1]\<close>: a tuple index out of range on a one-dimensional array.\<close>

fun shape1 :: "ndarray \<Rightarrow> error + nat" where
  "shape1 (Arr1 xs) = Inl IndexError"
| "shape1 (Arr2 c rs) = Inr c"

text \<open>\<^verbatim>\<open>a[:, i]\<close>: too many indices on a one-dimensional array, out of bounds past the last column.\<close>

fun column :: "ndarray \<Rightarrow> nat \<Rightarrow> error + real list" where
  "column (Arr1 xs) i = Inl IndexError"
| "column (Arr2 c rs) i = (if i < c then Inr (map (\<lambda>r. r ! i) rs) else Inl IndexError)"

text \<open>
  Boolean-mask indexing \<^verbatim>\<open>a[mask]\<close>. A mask of the shape of the array selects entries; a
  one-dimensional mask over the rows of a two-dimensional array selects whole rows (the callers
  only sum the selection, so the selected rows are given flattened); any other mask raises.
\<close>

definition mask_select :: "'a list \<Rightarrow> bool list \<Rightarrow> 'a list" where
  "mask_select xs ms = map fst (filter snd (zip xs ms))"

definition bool_index :: "ndarray \<Rightarrow> nat list \<Rightarrow> bool list \<Rightarrow> error + real list" where
  "bool_index a mask_shape ms =
     (if shape a = mask_shape then Inr (mask_select (flat a) ms)
      else (case a of
              Arr2 c rs \<Rightarrow>
                if mask_shape = [length rs] then Inr (concat (mask_select rs ms)) else Inl IndexError
            | Arr1 xs \<Rightarrow> Inl IndexError))"

definition count_true :: "bool list \<Rightarrow> nat" where
  "count_true ms = length (filter id ms)"

definition np_mean :: "real list \<Rightarrow> real option" where
  "np_mean xs = (if xs = [] then None else Some (sum_list xs / real (length xs)))"

text \<open>\<^verbatim>\<open>np.linspace(0, 1, n_bins + 1)\<close> and the pairs of consecutive boundaries.\<close>

definition linspace01 :: "nat \<Rightarrow> real list" where
  "linspace01 n = map (\<lambda>i. real i / real n) [0..<n + 1]"

definition bin_edges :: "nat \<Rightarrow> (real \<times> real) list" where
  "bin_edges n_bins =
     (let bin_boundaries = linspace01 n_bins;
          bin_lowers = butlast bin_boundaries;
          bin_uppers = tl bin_boundaries
      in zip bin_lowers bin_uppers)"

section \<open>The metric engine\<close>

text \<open>
  \<^verbatim>\<open>in_bin = np.logical_and(y_pred_proba >= bin_lower, y_pred_proba < bin_upper)\<close>, over the
  entries of the array in row-major order.
\<close>

definition in_bin_mask :: "ndarray \<Rightarrow> real \<Rightarrow> real \<Rightarrow> bool list" where
  "in_bin_mask y_pred_proba bin_lower bin_upper =
     map (\<lambda>v. bin_lower \<le> v \<and> v < bin_upper) (flat y_pred_proba)"

text \<open>The loop of \<^verbatim>\<open>_calculate_ece\<close> over the bins, with the accumulator \<^verbatim>\<open>ece\<close>.\<close>

fun ece_loop :: "ndarray \<Rightarrow> ndarray \<Rightarrow> (real \<times> real) list \<Rightarrow> real \<Rightarrow> error + real" where
  "ece_loop y_pred_proba y_true [] ece = Inr ece"
| "ece_loop y_pred_proba y_true ((bin_lower, bin_upper) # bs) ece =
     (let in_bin = in_bin_mask y_pred_proba bin_lower bin_upper;
          bin_size = count_true in_bin
      in if bin_size > 0 then
           (case bool_index y_true (shape y_pred_proba) in_bin of
              Inl e \<Rightarrow> Inl e
            | Inr labels_in_bin \<Rightarrow>
                (let bin_accuracy = sum_list labels_in_bin / real bin_size;
                     probs_in_bin = mask_select (flat y_pred_proba) in_bin;
                     bin_confidence = sum_list probs_in_bin / real (length probs_in_bin)
                 in ece_loop y_pred_proba y_true bs
                      (ece + real bin_size * \<bar>bin_accuracy - bin_confidence\<bar>)))
         else ece_loop y_pred_proba y_true bs ece)"

text \<open>
  \<^verbatim>\<open>return ece / len(y_pred_proba)\<close>. When the array has no rows no bin was filled, \<^verbatim>\<open>ece\<close> is
  still the Python float \<^verbatim>\<open>0.0\<close> and the division raises.
\<close>

definition calculate_ece :: "ndarray \<Rightarrow> ndarray \<Rightarrow> nat \<Rightarrow> error + real" where
  "calculate_ece y_pred_proba y_true n_bins =
     (case ece_loop y_pred_proba y_true (bin_edges n_bins) 0 of
        Inl e \<Rightarrow> Inl e
      | Inr ece \<Rightarrow>
          if len y_pred_proba = 0 then Inl ZeroDivisionError
          else Inr (ece / real (len y_pred_proba)))"

record reliability =
  accuracies :: "real list"
  confidences :: "real list"
  bin_sizes :: "nat list"

fun reliability_loop ::
  "ndarray \<Rightarrow> ndarray \<Rightarrow> (real \<times> real) list \<Rightarrow> reliability \<Rightarrow> error + reliability" where
  "reliability_loop y_pred_proba y_true [] acc = Inr acc"
| "reliability_loop y_pred_proba y_true ((bin_lower, bin_upper) # bs) acc =
     (let in_bin = in_bin_mask y_pred_proba bin_lower bin_upper;
          bin_size = count_true in_bin
      in if bin_size > 0 then
           (case bool_index y_true (shape y_pred_proba) in_bin of
              Inl e \<Rightarrow> Inl e
            | Inr labels_in_bin \<Rightarrow>
                (let bin_accuracy = sum_list labels_in_bin / real bin_size;
                     probs_in_bin = mask_select (flat y_pred_proba) in_bin;
                     bin_confidence = sum_list probs_in_bin / real (length probs_in_bin)
                 in reliability_loop y_pred_proba y_true bs
                      \<lparr>accuracies = accuracies acc @ [bin_accuracy],
                       confidences = confidences acc @ [bin_confidence],
                       bin_sizes = bin_sizes acc @ [bin_size]\<rparr>))
         else reliability_loop y_pred_proba y_true bs acc)"

definition calculate_reliability :: "ndarray \<Rightarrow> ndarray \<Rightarrow> nat \<Rightarrow> error + reliability" where
  "calculate_reliability y_pred_proba y_true n_bins =
     reliability_loop y_pred_proba y_true (bin_edges n_bins)
       \<lparr>accuracies = [], confidences = [], bin_sizes = []\<rparr>"

text \<open>
  \<^verbatim>\<open>brier_score_loss\<close> is scikit-learn's; it is a parameter of the model. The loop of
  \<^verbatim>\<open>evaluate_calibration\<close> evaluates \<^verbatim>\<open>y_true[:, i]\<close>, then \<^verbatim>\<open>y_pred_proba[:, i]\<close>, then calls it.
\<close>

fun brier_loop ::
  "(real list \<Rightarrow> real list \<Rightarrow> error + real) \<Rightarrow> ndarray \<Rightarrow> ndarray \<Rightarrow> nat list \<Rightarrow> real list
     \<Rightarrow> error + real list" where
  "brier_loop brier_score_loss y_pred_proba y_true [] brier_scores = Inr brier_scores"
| "brier_loop brier_score_loss y_pred_proba y_true (i # is) brier_scores =
     (case column y_true i of
        Inl e \<Rightarrow> Inl e
      | Inr true_col \<Rightarrow>
          (case column y_pred_proba i of
             Inl e \<Rightarrow> Inl e
           | Inr prob_col \<Rightarrow>
               (case brier_score_loss true_col prob_col of
                  Inl e \<Rightarrow> Inl e
                | Inr brier \<Rightarrow>
                    brier_loop brier_score_loss y_pred_proba y_true is (brier_scores @ [brier]))))"

record metrics =
  brier_score :: "real option"
  brier_scores_per_class :: "real list"
  ece :: real
  reliability_data :: reliability

definition evaluate_calibration ::
  "(real list \<Rightarrow> real list \<Rightarrow> error + real) \<Rightarrow> ndarray \<Rightarrow> ndarray \<Rightarrow> error + metrics" where
  "evaluate_calibration brier_score_loss y_pred_proba y_true =
     (case shape1 y_pred_proba of
        Inl e \<Rightarrow> Inl e
      | Inr c \<Rightarrow>
          (case brier_loop brier_score_loss y_pred_proba y_true [0..<c] [] of
             Inl e \<Rightarrow> Inl e
           | Inr brier_scores \<Rightarrow>
               (case calculate_ece y_pred_proba y_true 15 of
                  Inl e \<Rightarrow> Inl e
                | Inr ece_value \<Rightarrow>
                    (case calculate_reliability y_pred_proba y_true 10 of
                       Inl e \<Rightarrow> Inl e
                     | Inr rel \<Rightarrow>
                         Inr \<lparr>brier_score = np_mean brier_scores,
                              brier_scores_per_class = brier_scores,
                              ece = ece_value,
                              reliability_data = rel\<rparr>))))"

section \<open>Softmax and temperature scaling\<close>

definition floor_eps :: real where
  "floor_eps = 1 / 10 ^ 8"

fun map_arr :: "(real \<Rightarrow> real) \<Rightarrow> ndarray \<Rightarrow> ndarray" where
  "map_arr f (Arr1 xs) = Arr1 (map f xs)"
| "map_arr f (Arr2 c rs) = Arr2 c (map (map f) rs)"

text \<open>The maximum of a row; the empty row is excluded by the zero-size check of the callers.\<close>

fun row_max :: "real list \<Rightarrow> real" where
  "row_max [] = 0"
| "row_max (x # xs) = fold max xs x"

definition softmax_row :: "real list \<Rightarrow> real list" where
  "softmax_row r =
     (let exp_x = map (\<lambda>v. exp (v - row_max r)) r
      in map (\<lambda>e. e / sum_list exp_x) exp_x)"

text \<open>
  \<^verbatim>\<open>_softmax(x, axis=1)\<close>, the only way the module calls it. \<^verbatim>\<open>np.max(x, axis=1)\<close> raises an
  AxisError on a one-dimensional array and a ValueError when the reduced axis has size zero.
\<close>

fun softmax :: "ndarray \<Rightarrow> error + ndarray" where
  "softmax (Arr1 xs) = Inl AxisError"
| "softmax (Arr2 c rs) = (if c = 0 then Inl ValueError else Inr (Arr2 c (map softmax_row rs)))"

definition apply_temperature_scaling :: "ndarray \<Rightarrow> real \<Rightarrow> error + ndarray" where
  "apply_temperature_scaling y_pred_proba temperature =
     (let scaled_logits = map_arr (\<lambda>v. ln (v + floor_eps) / temperature) y_pred_proba
      in softmax scaled_logits)"

text \<open>
  NumPy broadcasting of \<^verbatim>\<open>y_true * np.log(scaled_proba + 1e-8)\<close>: a one-dimensional operand is a
  single row; two dimensions are compatible when they are equal or one of them is 1. The right
  operand is two-dimensional here, so the product is.
\<close>

definition bc_dim :: "nat \<Rightarrow> nat \<Rightarrow> nat option" where
  "bc_dim a b = (if a = b then Some a else if a = 1 then Some b else if b = 1 then Some a else None)"

definition stretch :: "nat \<Rightarrow> 'a list \<Rightarrow> 'a list" where
  "stretch n xs = (case xs of [x] \<Rightarrow> replicate n x | _ \<Rightarrow> xs)"

fun as_2d :: "ndarray \<Rightarrow> nat \<times> real list list" where
  "as_2d (Arr1 xs) = (length xs, [xs])"
| "as_2d (Arr2 c rs) = (c, rs)"

definition broadcast_mul :: "ndarray \<Rightarrow> ndarray \<Rightarrow> error + ndarray" where
  "broadcast_mul a b =
     (let (ca, ra) = as_2d a; (cb, rb) = as_2d b
      in case bc_dim (length ra) (length rb) of
           None \<Rightarrow> Inl ValueError
         | Some n \<Rightarrow>
             (case bc_dim ca cb of
                None \<Rightarrow> Inl ValueError
              | Some c \<Rightarrow>
                  Inr (Arr2 c (map2 (\<lambda>r s. map2 (*) (stretch c r) (stretch c s))
                                 (stretch n ra) (stretch n rb)))))"

fun sum_axis1 :: "ndarray \<Rightarrow> error + real list" where
  "sum_axis1 (Arr1 xs) = Inl AxisError"
| "sum_axis1 (Arr2 c rs) = Inr (map sum_list rs)"

text \<open>The closure \<^verbatim>\<open>objective(temperature)\<close> of \<^verbatim>\<open>temperature_scaling\<close>.\<close>

definition objective :: "ndarray \<Rightarrow> ndarray \<Rightarrow> real \<Rightarrow> error + real option" where
  "objective y_pred_proba y_true temperature =
     (let scaled_logits = map_arr (\<lambda>v. ln (v + floor_eps) / temperature) y_pred_proba
      in case softmax scaled_logits of
           Inl e \<Rightarrow> Inl e
         | Inr scaled_proba \<Rightarrow>
             (case broadcast_mul y_true (map_arr (\<lambda>v. ln (v + floor_eps)) scaled_proba) of
                Inl e \<Rightarrow> Inl e
              | Inr weighted \<Rightarrow>
                  (case sum_axis1 weighted of
                     Inl e \<Rightarrow> Inl e
                   | Inr per_sample \<Rightarrow> Inr (map_option uminus (np_mean per_sample)))))"

text \<open>
  \<^verbatim>\<open>scipy.optimize.minimize\<close> is a parameter: it receives the objective, the initial guess and
  the bounds, and returns \<^verbatim>\<open>result.x\<close> or raises. \<^verbatim>\<open>temperature_scaling\<close> returns \<^verbatim>\<open>result.x[0]\<close>.
\<close>

type_synonym minimizer =
  "(real \<Rightarrow> error + real option) \<Rightarrow> real \<Rightarrow> (real \<times> real) list \<Rightarrow> error + real list"

definition temperature_scaling :: "minimizer \<Rightarrow> ndarray \<Rightarrow> ndarray \<Rightarrow> error + real" where
  "temperature_scaling minimize y_pred_proba y_true =
     (case minimize (objective y_pred_proba y_true) 1 [(1 / 10, 10)] of
        Inl e \<Rightarrow> Inl e
      | Inr x \<Rightarrow> (case x of [] \<Rightarrow> Inl IndexError | optimal_temperature # _ \<Rightarrow> Inr optimal_temperature))"

section \<open>Platt scaling and isotonic calibration\<close>

fun max_axis1 :: "ndarray \<Rightarrow> error + real list" where
  "max_axis1 (Arr1 xs) = Inl AxisError"
| "max_axis1 (Arr2 c rs) = (if c = 0 then Inl ValueError else Inr (map row_max rs))"

text \<open>\<^verbatim>\<open>np.argmax\<close> of a row: the first index that holds the maximum.\<close>

fun row_argmax :: "real list \<Rightarrow> nat" where
  "row_argmax [] = 0"
| "row_argmax (x # xs) = (if list_all (\<lambda>v. v \<le> x) xs then 0 else Suc (row_argmax xs))"

fun argmax_axis1 :: "ndarray \<Rightarrow> error + nat list" where
  "argmax_axis1 (Arr1 xs) = Inl AxisError"
| "argmax_axis1 (Arr2 c rs) = (if c = 0 then Inl ValueError else Inr (map row_argmax rs))"

text \<open>
  What \<^verbatim>\<open>platt_scaling\<close> hands to \<^verbatim>\<open>LogisticRegression.fit\<close>: the feature matrix
  \<^verbatim>\<open>np.max(y_pred_proba, axis=1, keepdims=True)\<close> and the target \<^verbatim>\<open>np.argmax(y_true, axis=1)\<close>.
\<close>

definition platt_fit_args :: "ndarray \<Rightarrow> ndarray \<Rightarrow> error + (ndarray \<times> nat list)" where
  "platt_fit_args y_pred_proba y_true =
     (case max_axis1 y_pred_proba of
        Inl e \<Rightarrow> Inl e
      | Inr maxima \<Rightarrow>
          (let y_pred_max = Arr2 1 (map (\<lambda>m. [m]) maxima)
           in case argmax_axis1 y_true of
                Inl e \<Rightarrow> Inl e
              | Inr target \<Rightarrow> Inr (y_pred_max, target)))"

text \<open>
  The fitted \<^verbatim>\<open>LogisticRegression\<close> (scikit-learn) is a parameter returning \<^verbatim>\<open>coef_\<close> and
  \<^verbatim>\<open>intercept_\<close>; \<^verbatim>\<open>platt_scaling\<close> returns \<^verbatim>\<open>coef_[0][0]\<close> and \<^verbatim>\<open>intercept_[0]\<close>.
\<close>

type_synonym logistic_fitter = "ndarray \<Rightarrow> nat list \<Rightarrow> error + (real list list \<times> real list)"

definition platt_scaling :: "logistic_fitter \<Rightarrow> ndarray \<Rightarrow> ndarray \<Rightarrow> error + (real \<times> real)" where
  "platt_scaling lr_fit y_pred_proba y_true =
     (case platt_fit_args y_pred_proba y_true of
        Inl e \<Rightarrow> Inl e
      | Inr (y_pred_max, target) \<Rightarrow>
          (case lr_fit y_pred_max target of
             Inl e \<Rightarrow> Inl e
           | Inr (coef, intercept) \<Rightarrow>
               (case coef of
                  (platt_a # _) # _ \<Rightarrow>
                    (case intercept of
                       platt_b # _ \<Rightarrow> Inr (platt_a, platt_b)
                     | [] \<Rightarrow> Inl IndexError)
                | _ \<Rightarrow> Inl IndexError)))"

definition isotonic_calibration ::
  "(real list \<Rightarrow> real list \<Rightarrow> error + 'iso) \<Rightarrow> ndarray \<Rightarrow> ndarray \<Rightarrow> error + 'iso" where
  "isotonic_calibration isotonic_fit y_pred_proba y_true =
     (case max_axis1 y_pred_proba of
        Inl e \<Rightarrow> Inl e
      | Inr y_pred_max \<Rightarrow>
          (case max_axis1 y_true of
             Inl e \<Rightarrow> Inl e
           | Inr y_true_max \<Rightarrow> isotonic_fit y_pred_max y_true_max))"

section \<open>The calibrator object and its persistence\<close>

record params =
  temperature :: real
  platt_a :: real
  platt_b :: real

text \<open>
  The fields of \<^verbatim>\<open>ConfidenceCalibrator\<close>. The module never builds an entry of
  \<^verbatim>\<open>calibration_history\<close>, so the type of its entries is left open.
\<close>

record ('m, 'h) calibrator =
  model_path :: string
  model :: "'m option"
  calibration_params :: params
  calibration_history :: "'h list"

definition init :: "string \<Rightarrow> ('m, 'h) calibrator" where
  "init path =
     \<lparr>model_path = path, model = None,
      calibration_params = \<lparr>temperature = 1, platt_a = 1, platt_b = 0\<rparr>,
      calibration_history = []\<rparr>"

text \<open>The dictionary \<^verbatim>\<open>calibration_data\<close> that \<^verbatim>\<open>save_calibration_params\<close> serialises.\<close>

record 'h calibration_data =
  data_temperature :: real
  data_platt_a :: real
  data_platt_b :: real
  data_calibration_history :: "'h list"

text \<open>
  The store of text files, from path to content. The collaborators outside the module are the
  fields of an environment: Keras (\<open>keras_load_model\<close>, \<open>model_predict\<close>), scikit-learn, SciPy,
  matplotlib (\<open>plot_curves\<close>, whose image is not part of the store), and the operating system.
  \<open>json_chunks\<close> is the sequence of strings that \<^verbatim>\<open>json.dump\<close> writes for a document, one
  \<^verbatim>\<open>f.write\<close> each; \<open>write_fault\<close>, when \<open>Some (k, e)\<close>, makes the production or the writing of
  chunk number \<open>k\<close> raise \<open>e\<close>; \<open>open_fault\<close> makes \<^verbatim>\<open>open(save_path, 'w')\<close> raise.
\<close>

type_synonym files = "string \<rightharpoonup> string"

record ('x, 'm, 'h, 'iso) env =
  keras_load_model :: "string \<Rightarrow> error + 'm"
  model_predict :: "'m \<Rightarrow> 'x \<Rightarrow> error + ndarray"
  brier_score_loss :: "real list \<Rightarrow> real list \<Rightarrow> error + real"
  minimize :: minimizer
  logistic_fit :: logistic_fitter
  isotonic_fit :: "real list \<Rightarrow> real list \<Rightarrow> error + 'iso"
  json_chunks :: "'h calibration_data \<Rightarrow> string list"
  open_fault :: "string \<Rightarrow> error option"
  write_fault :: "(nat \<times> error) option"
  mkdir_fault :: "string \<Rightarrow> error option"
  plot_curves :: "ndarray \<Rightarrow> ndarray \<Rightarrow> string \<Rightarrow> error option"

text \<open>\<^verbatim>\<open>f.write(chunk)\<close> on the file opened at \<open>path\<close>: the chunk is appended.\<close>

definition file_write :: "string \<Rightarrow> string \<Rightarrow> files \<Rightarrow> files" where
  "file_write path chunk fs =
     fs(path \<mapsto> (case fs path of None \<Rightarrow> chunk | Some content \<Rightarrow> content @ chunk))"

text \<open>
  \<^verbatim>\<open>json.dump(calibration_data, f, indent=2)\<close>: the chunks are written one by one; at a fault the
  chunks before it have been written and the exception leaves the loop.
\<close>

definition json_dump ::
  "('x, 'm, 'h, 'iso) env \<Rightarrow> 'h calibration_data \<Rightarrow> string \<Rightarrow> files \<Rightarrow> files \<times> (error + unit)" where
  "json_dump E doc path fs =
     (let chunks = json_chunks E doc
      in case write_fault E of
           None \<Rightarrow> (fold (file_write path) chunks fs, Inr ())
         | Some (k, e) \<Rightarrow>
             if k < length chunks then (fold (file_write path) (take k chunks) fs, Inl e)
             else (fold (file_write path) chunks fs, Inr ()))"

text \<open>
  \<^verbatim>\<open>save_calibration_params\<close>: \<^verbatim>\<open>open(save_path, 'w')\<close> truncates the file, the \<^verbatim>\<open>with\<close> block
  closes it on every exit, and an exception of the block reaches the caller.
\<close>

definition calibration_data_of :: "('m, 'h) calibrator \<Rightarrow> 'h calibration_data" where
  "calibration_data_of self =
     \<lparr>data_temperature = temperature (calibration_params self),
      data_platt_a = platt_a (calibration_params self),
      data_platt_b = platt_b (calibration_params self),
      data_calibration_history = calibration_history self\<rparr>"

definition save_calibration_params ::
  "('x, 'm, 'h, 'iso) env \<Rightarrow> ('m, 'h) calibrator \<Rightarrow> string \<Rightarrow> files \<Rightarrow> files \<times> (error + unit)" where
  "save_calibration_params E self save_path fs =
     (let calibration_data = calibration_data_of self
      in case open_fault E save_path of
           Some e \<Rightarrow> (fs, Inl e)
         | None \<Rightarrow> json_dump E calibration_data save_path (fs(save_path \<mapsto> [])))"

section \<open>The orchestrator\<close>

definition load_model ::
  "('x, 'm, 'h, 'iso) env \<Rightarrow> ('m, 'h) calibrator \<Rightarrow> ('m, 'h) calibrator \<times> (error + unit)" where
  "load_model E self =
     (case keras_load_model E (model_path self) of
        Inl e \<Rightarrow> (self, Inl e)
      | Inr m \<Rightarrow> (self\<lparr>model := Some m\<rparr>, Inr ()))"

text \<open>
  \<^verbatim>\<open>prepare_calibration_data\<close>: the predictions of the model, and the labels reduced by
  \<^verbatim>\<open>np.argmax(y_val, axis=1)\<close> to a one-dimensional array of class indices.
\<close>

definition prepare_calibration_data ::
  "('x, 'm, 'h, 'iso) env \<Rightarrow> ('m, 'h) calibrator \<Rightarrow> 'x \<Rightarrow> ndarray \<Rightarrow> error + (ndarray \<times> ndarray)" where
  "prepare_calibration_data E self X_val y_val =
     (case model self of
        None \<Rightarrow> Inl AttributeError
      | Some m \<Rightarrow>
          (case model_predict E m X_val of
             Inl e \<Rightarrow> Inl e
           | Inr predictions \<Rightarrow>
               (case argmax_axis1 y_val of
                  Inl e \<Rightarrow> Inl e
                | Inr indices \<Rightarrow> Inr (predictions, Arr1 (map real indices)))))"

record calibration_results =
  original_metrics :: metrics
  temperature_metrics :: metrics
  result_params :: params
  improvement_brier_score :: "real option"
  improvement_ece :: real

definition nan_minus :: "real option \<Rightarrow> real option \<Rightarrow> real option" where
  "nan_minus a b = (case a of None \<Rightarrow> None | Some x \<Rightarrow> (case b of None \<Rightarrow> None | Some y \<Rightarrow> Some (x - y)))"

text \<open>
  \<^verbatim>\<open>calibrate_model\<close>, from the point where the model is loaded. The calibrator is mutated in
  place, so what has been assigned before an exception stays assigned: the function returns the
  calibrator and the store as they are when it returns or raises.
\<close>

definition calibrate_loaded ::
  "('x, 'm, 'h, 'iso) env \<Rightarrow> ('m, 'h) calibrator \<Rightarrow> files \<Rightarrow> 'x \<Rightarrow> ndarray
     \<Rightarrow> ('m, 'h) calibrator \<times> files \<times> (error + calibration_results)" where
  "calibrate_loaded E self fs X_val y_val =
     (case prepare_calibration_data E self X_val y_val of
        Inl e \<Rightarrow> (self, fs, Inl e)
      | Inr (y_pred_proba, y_true_binary) \<Rightarrow>
     (case evaluate_calibration (brier_score_loss E) y_pred_proba y_true_binary of
        Inl e \<Rightarrow> (self, fs, Inl e)
      | Inr original \<Rightarrow>
     (case temperature_scaling (minimize E) y_pred_proba y_true_binary of
        Inl e \<Rightarrow> (self, fs, Inl e)
      | Inr optimal_temp \<Rightarrow>
     (let self1 = self\<lparr>calibration_params := (calibration_params self)\<lparr>temperature := optimal_temp\<rparr>\<rparr>
      in
     (case apply_temperature_scaling y_pred_proba optimal_temp of
        Inl e \<Rightarrow> (self1, fs, Inl e)
      | Inr temp_scaled_proba \<Rightarrow>
     (case evaluate_calibration (brier_score_loss E) temp_scaled_proba y_true_binary of
        Inl e \<Rightarrow> (self1, fs, Inl e)
      | Inr temp \<Rightarrow>
     (case platt_scaling (logistic_fit E) y_pred_proba y_true_binary of
        Inl e \<Rightarrow> (self1, fs, Inl e)
      | Inr (a, b) \<Rightarrow>
     (let self2 = self1\<lparr>calibration_params := (calibration_params self1)\<lparr>platt_a := a, platt_b := b\<rparr>\<rparr>
      in
     (case isotonic_calibration (isotonic_fit E) y_pred_proba y_true_binary of
        Inl e \<Rightarrow> (self2, fs, Inl e)
      | Inr isotonic_model \<Rightarrow>
     (case mkdir_fault E ''results'' of
        Some e \<Rightarrow> (self2, fs, Inl e)
      | None \<Rightarrow>
     (case save_calibration_params E self2 ''results/calibration_params.json'' fs of
        (fs', Inl e) \<Rightarrow> (self2, fs', Inl e)
      | (fs', Inr _) \<Rightarrow>
     (case plot_curves E y_pred_proba y_true_binary ''results/calibration_curves.png'' of
        Some e \<Rightarrow> (self2, fs', Inl e)
      | None \<Rightarrow>
          (self2, fs',
           Inr \<lparr>original_metrics = original,
                temperature_metrics = temp,
                result_params = calibration_params self2,
                improvement_brier_score = nan_minus (brier_score original) (brier_score temp),
                improvement_ece = ece original - ece temp\<rparr>)))))))))))))"

definition calibrate_model ::
  "('x, 'm, 'h, 'iso) env \<Rightarrow> ('m, 'h) calibrator \<Rightarrow> files \<Rightarrow> 'x \<Rightarrow> ndarray
     \<Rightarrow> ('m, 'h) calibrator \<times> files \<times> (error + calibration_results)" where
  "calibrate_model E self fs X_val y_val =
     (case model self of
        None \<Rightarrow>
          (case load_model E self of
             (self', Inl e) \<Rightarrow> (self', fs, Inl e)
           | (self', Inr _) \<Rightarrow> calibrate_loaded E self' fs X_val y_val)
      | Some _ \<Rightarrow> calibrate_loaded E self fs X_val y_val)"

section \<open>Notions of the specification\<close>

text \<open>
  The ProbabilityMatrix of the specification: \<open>N\<close> vectors of length \<open>C\<close>, every entry in
  \<open>[0, 1]\<close>, every vector summing to 1.
\<close>

definition valid_probability_row :: "real list \<Rightarrow> bool" where
  "valid_probability_row r = (list_all (\<lambda>v. 0 \<le> v \<and> v \<le> 1) r \<and> sum_list r = 1)"

fun valid_probability_matrix :: "ndarray \<Rightarrow> bool" where
  "valid_probability_matrix (Arr1 xs) = False"
| "valid_probability_matrix (Arr2 c rs) = list_all (\<lambda>r. length r = c \<and> valid_probability_row r) rs"

text \<open>The one-hot vector of a class index, as \<^verbatim>\<open>to_categorical\<close> builds it in \<^verbatim>\<open>main\<close>.\<close>

definition one_hot :: "nat \<Rightarrow> nat \<Rightarrow> real list" where
  "one_hot c k = (replicate c 0)[k := 1]"



text \<open>
  The sum the specification of the ECE describes: over the bins that are not empty,
  \<open>binCount * |binAccuracy - binConfidence|\<close>.
\<close>

definition ece_bin_term :: "ndarray \<Rightarrow> ndarray \<Rightarrow> real \<times> real \<Rightarrow> real" where
  "ece_bin_term y_pred_proba y_true b =
     (let in_bin = in_bin_mask y_pred_proba (fst b) (snd b);
          bin_count = count_true in_bin;
          bin_accuracy = sum_list (mask_select (flat y_true) in_bin) / real bin_count;
          bin_confidence = sum_list (mask_select (flat y_pred_proba) in_bin) / real bin_count
      in if bin_count > 0 then real bin_count * \<bar>bin_accuracy - bin_confidence\<bar> else 0)"

definition ece_bin_sum :: "ndarray \<Rightarrow> ndarray \<Rightarrow> nat \<Rightarrow> real" where
  "ece_bin_sum y_pred_proba y_true n_bins =
     sum_list (map (ece_bin_term y_pred_proba y_true) (bin_edges n_bins))"

text \<open>
  The binary target the specification gives the Platt fit: 1 where the index of the largest
  predicted probability is the index of the true class, 0 elsewhere.
\<close>

definition correctness_target :: "ndarray \<Rightarrow> ndarray \<Rightarrow> nat list" where
  "correctness_target y_pred_proba y_true =
     map2 (\<lambda>p y. if row_argmax p = row_argmax y then 1 else 0)
       (snd (as_2d y_pred_proba)) (snd (as_2d y_true))"

section \<open>Stand-ins for the collaborators\<close>

text \<open>
  Concrete collaborators, for running the model on examples: the Brier score of scikit-learn as
  its documentation defines it (the mean squared difference, an empty input rejected), an
  optimizer that evaluates the objective at the initial guess and stays there, and an environment
  whose model predicts a fixed matrix, whose encoder writes three chunks and whose disk may fail.
\<close>

definition brier_score_loss_ref :: "real list \<Rightarrow> real list \<Rightarrow> error + real" where
  "brier_score_loss_ref y_true y_prob =
     (if y_true = [] then Inl ValueError
      else Inr (sum_list (map2 (\<lambda>y p. (y - p)\<^sup>2) y_true y_prob) / real (length y_true)))"

definition minimize_stalled :: minimizer where
  "minimize_stalled f x0 bounds = (case f x0 of Inl e \<Rightarrow> Inl e | Inr _ \<Rightarrow> Inr [x0])"

definition stub_env :: "ndarray \<Rightarrow> (nat \<times> error) option \<Rightarrow> (unit, unit, unit, unit) env" where
  "stub_env predictions fault =
     \<lparr>keras_load_model = (\<lambda>_. Inr ()),
      model_predict = (\<lambda>_ _. Inr predictions),
      brier_score_loss = brier_score_loss_ref,
      minimize = minimize_stalled,
      logistic_fit = (\<lambda>_ _. Inr ([[1]], [0])),
      isotonic_fit = (\<lambda>_ _. Inr ()),
      json_chunks = (\<lambda>_. [''{'', ''temperature: 1.0'', ''}'']),
      open_fault = (\<lambda>_. None),
      write_fault = fault,
      mkdir_fault = (\<lambda>_. None),
      plot_curves = (\<lambda>_ _ _. None)\<rparr>"

section \<open>The expected calibration error\<close>

lemma length_mask_select:
  "length xs = length ms \<Longrightarrow> length (mask_select xs ms) = count_true ms"
  by (induction xs ms rule: list_induct2) (simp_all add: mask_select_def count_true_def)

lemma length_in_bin_mask: "length (in_bin_mask p lo hi) = length (flat p)"
  by (simp add: in_bin_mask_def)

lemma count_true_in_bin:
  "count_true (in_bin_mask p lo hi) = length (filter (\<lambda>v. lo \<le> v \<and> v < hi) (flat p))"
  by (simp add: count_true_def in_bin_mask_def filter_map comp_def)

text \<open>The loop adds one term per bin to its accumulator.\<close>

lemma ece_loop_sum:
  assumes "shape y = shape p"
  shows "ece_loop p y bs acc = Inr (acc + sum_list (map (ece_bin_term p y) bs))"
proof (induction bs arbitrary: acc)
  case Nil
  then show ?case by simp
next
  case (Cons b bs)
  obtain lo hi where b: "b = (lo, hi)" by (cases b)
  have len: "length (mask_select (flat p) (in_bin_mask p lo hi)) = count_true (in_bin_mask p lo hi)"
    by (simp add: length_mask_select length_in_bin_mask)
  show ?case
    using assms by (simp add: b Cons.IH bool_index_def ece_bin_term_def Let_def len)
qed

text \<open>
  For labels of the shape of the probabilities and at least one row, \<^verbatim>\<open>_calculate_ece\<close> returns
  the sum over the bins divided by the number of rows, \<^verbatim>\<open>len(y_pred_proba)\<close>.
\<close>

lemma calculate_ece_by_rows:
  assumes "shape y = shape p" and "0 < len p"
  shows "calculate_ece p y n = Inr (ece_bin_sum p y n / real (len p))"
  using assms by (simp add: calculate_ece_def ece_loop_sum ece_bin_sum_def)

text \<open>
  C1. The claim: the ECE is the sum over the non-empty bins of
  \<open>binCount * |binAccuracy - binConfidence|\<close> divided by the number \<open>N * C\<close> of entries. The
  code bins every entry but divides by the row count: for the single sample \<open>[0.9, 0.1]\<close> with
  label \<open>[1, 0]\<close> the two bins contribute 0.1 each, the code returns \<open>0.2 / 1\<close>, and the sum
  divided by the two entries is 0.1.
\<close>

theorem ece_divides_by_row_count:
  "calculate_ece (Arr2 2 [[9/10, 1/10]]) (Arr2 2 [[1, 0]]) 15 = Inr (1/5)
   \<and> ece_bin_sum (Arr2 2 [[9/10, 1/10]]) (Arr2 2 [[1, 0]]) 15 / real (1 * 2) = 1/10"
  by (simp add: calculate_ece_def ece_bin_sum_def ece_bin_term_def bin_edges_def linspace01_def
      upt_rec in_bin_mask_def count_true_def bool_index_def mask_select_def)

section \<open>The bins\<close>

lemma bin_edges_map:
  "bin_edges n = map (\<lambda>i. (real i / real n, real (Suc i) / real n)) [0..<n]"
proof -
  let ?f = "\<lambda>i. real i / real n"
  have 1: "butlast (map ?f [0..<n + 1]) = map ?f [0..<n]"
    by (simp add: map_butlast[symmetric])
  have 2: "tl (map ?f [0..<n + 1]) = map (\<lambda>i. ?f (Suc i)) [0..<n]"
    by (simp add: map_tl[symmetric] map_Suc_upt[symmetric] del: upt_Suc)
  show ?thesis
    unfolding bin_edges_def linspace01_def Let_def 1 2
    by (simp add: zip_map_map list_eq_iff_nth_eq)
qed

lemma filter_eq_upt: "length (filter (\<lambda>i. i = k) [0..<n]) = (if k < n then 1 else 0)"
  by (induction n) auto

lemma in_bin_iff:
  assumes "0 < n" "i < n"
  shows "(real i / real n \<le> v \<and> v < real (Suc i) / real n)
           \<longleftrightarrow> (0 \<le> v \<and> v < 1 \<and> i = nat \<lfloor>v * real n\<rfloor>)"
proof
  assume h: "real i / real n \<le> v \<and> v < real (Suc i) / real n"
  then have a: "real i \<le> v * real n" and b: "v * real n < real i + 1"
    using assms by (simp_all add: field_simps)
  then have "\<lfloor>v * real n\<rfloor> = int i" by (intro floor_unique) simp_all
  moreover have "0 \<le> v" using h assms by (meson divide_nonneg_nonneg of_nat_0_le_iff order_trans)
  moreover have "v < 1"
  proof -
    have "real (Suc i) / real n \<le> 1" using assms by simp
    with h show ?thesis by linarith
  qed
  ultimately show "0 \<le> v \<and> v < 1 \<and> i = nat \<lfloor>v * real n\<rfloor>" by simp
next
  assume h: "0 \<le> v \<and> v < 1 \<and> i = nat \<lfloor>v * real n\<rfloor>"
  then have nn: "0 \<le> v * real n" by simp
  then have "real i = of_int \<lfloor>v * real n\<rfloor>" using h by simp
  then have "real i \<le> v * real n" and "v * real n < real i + 1"
    by linarith+
  then show "real i / real n \<le> v \<and> v < real (Suc i) / real n"
    using assms by (simp add: field_simps)
qed

text \<open>A value of \<open>[0, 1)\<close> lies in exactly one bin; any other value, 1.0 included, in none.\<close>

lemma bins_containing:
  assumes "0 < n"
  shows "length (filter (\<lambda>b. fst b \<le> v \<and> v < snd b) (bin_edges n))
           = (if 0 \<le> v \<and> v < 1 then 1 else 0)"
proof -
  have "length (filter (\<lambda>b. fst b \<le> v \<and> v < snd b) (bin_edges n))
        = length (filter (\<lambda>i. real i / real n \<le> v \<and> v < real (Suc i) / real n) [0..<n])"
    by (simp add: bin_edges_map filter_map comp_def)
  also have "\<dots> = length (filter (\<lambda>i. 0 \<le> v \<and> v < 1 \<and> i = nat \<lfloor>v * real n\<rfloor>) [0..<n])"
    using assms by (intro arg_cong[where f=length] filter_cong refl in_bin_iff) simp_all
  also have "\<dots> = (if 0 \<le> v \<and> v < 1 then 1 else 0)"
  proof (cases "0 \<le> v \<and> v < 1")
    case True
    then have "v * real n < real n" using assms by simp
    then have "\<lfloor>v * real n\<rfloor> < int n" by (simp add: floor_less_iff)
    then have "nat \<lfloor>v * real n\<rfloor> < n" using True by (simp add: nat_less_iff)
    with True show ?thesis by (simp add: filter_eq_upt)
  next
    case False
    then show ?thesis by auto
  qed
  finally show ?thesis .
qed

section \<open>The reliability bins\<close>

lemma reliability_loop_sizes:
  assumes "shape y = shape p"
  shows "\<exists>rel. reliability_loop p y bs acc = Inr rel
           \<and> bin_sizes rel = bin_sizes acc
                @ filter (\<lambda>k. 0 < k) (map (\<lambda>b. count_true (in_bin_mask p (fst b) (snd b))) bs)"
proof (induction bs arbitrary: acc)
  case Nil
  then show ?case by simp
next
  case (Cons b bs)
  obtain lo hi where b: "b = (lo, hi)" by (cases b)
  show ?case
  proof (cases "0 < count_true (in_bin_mask p lo hi)")
    case True
    let ?acc' = "\<lparr>accuracies = accuracies acc @
                    [sum_list (mask_select (flat y) (in_bin_mask p lo hi))
                       / real (count_true (in_bin_mask p lo hi))],
                  confidences = confidences acc @
                    [sum_list (mask_select (flat p) (in_bin_mask p lo hi))
                       / real (length (mask_select (flat p) (in_bin_mask p lo hi)))],
                  bin_sizes = bin_sizes acc @ [count_true (in_bin_mask p lo hi)]\<rparr>"
    from Cons.IH[of ?acc'] obtain rel where
      "reliability_loop p y bs ?acc' = Inr rel"
      "bin_sizes rel = bin_sizes ?acc'
         @ filter (\<lambda>k. 0 < k) (map (\<lambda>b. count_true (in_bin_mask p (fst b) (snd b))) bs)"
      by blast
    then show ?thesis
      using True assms by (simp add: b bool_index_def Let_def)
  next
    case False
    from Cons.IH[of acc] obtain rel where
      "reliability_loop p y bs acc = Inr rel"
      "bin_sizes rel = bin_sizes acc
         @ filter (\<lambda>k. 0 < k) (map (\<lambda>b. count_true (in_bin_mask p (fst b) (snd b))) bs)"
      by blast
    then show ?thesis
      using False by (simp add: b Let_def)
  qed
qed

lemma sum_list_filter_pos: "sum_list (filter (\<lambda>k. 0 < k) (ks :: nat list)) = sum_list ks"
  by (induction ks) simp_all

lemma length_filter_sum: "length (filter Q vs) = sum_list (map (\<lambda>v. if Q v then 1 else 0) vs)"
  by (induction vs) simp_all

text \<open>Counting bin by bin or entry by entry gives the same total.\<close>

lemma count_swap:
  "sum_list (map (\<lambda>b. length (filter (\<lambda>v. P b v) vs)) bs)
     = sum_list (map (\<lambda>v. length (filter (\<lambda>b. P b v) bs)) vs)"
proof (induction bs)
  case Nil
  then show ?case by simp
next
  case (Cons b bs)
  have "sum_list (map (\<lambda>v. length (filter (\<lambda>b. P b v) (b # bs))) vs)
        = sum_list (map (\<lambda>v. (if P b v then 1 else 0) + length (filter (\<lambda>b. P b v) bs)) vs)"
    by (intro arg_cong[where f=sum_list] map_cong refl) simp
  also have "\<dots> = length (filter (\<lambda>v. P b v) vs)
                  + sum_list (map (\<lambda>v. length (filter (\<lambda>b. P b v) bs)) vs)"
    by (simp add: sum_list_addf length_filter_sum[symmetric])
  finally show ?case using Cons.IH by simp
qed

lemma binned_entries:
  assumes "0 < n"
  shows "sum_list (map (\<lambda>b. count_true (in_bin_mask p (fst b) (snd b))) (bin_edges n))
           = length (filter (\<lambda>v. 0 \<le> v \<and> v < 1) (flat p))"
proof -
  have "sum_list (map (\<lambda>b. count_true (in_bin_mask p (fst b) (snd b))) (bin_edges n))
        = sum_list (map (\<lambda>v. length (filter (\<lambda>b. fst b \<le> v \<and> v < snd b) (bin_edges n))) (flat p))"
    unfolding count_true_in_bin by (rule count_swap[of "\<lambda>b v. fst b \<le> v \<and> v < snd b"])
  also have "\<dots> = sum_list (map (\<lambda>v. if 0 \<le> v \<and> v < 1 then 1 else 0) (flat p))"
    using assms by (simp add: bins_containing)
  finally show ?thesis by (simp add: length_filter_sum[symmetric])
qed

text \<open>
  The bin counts that \<^verbatim>\<open>_calculate_reliability\<close> emits add up to the number of entries in
  \<open>[0, 1)\<close>: every such entry is counted once, and an entry equal to 1.0 is not counted.
\<close>

lemma reliability_counts_half_open:
  assumes "shape y = shape p" and "0 < n"
  shows "\<exists>rel. calculate_reliability p y n = Inr rel
           \<and> sum_list (bin_sizes rel) = length (filter (\<lambda>v. 0 \<le> v \<and> v < 1) (flat p))"
proof -
  from reliability_loop_sizes[OF assms(1), of "bin_edges n"
         "\<lparr>accuracies = [], confidences = [], bin_sizes = []\<rparr>"]
  obtain rel where "calculate_reliability p y n = Inr rel"
    and "bin_sizes rel = filter (\<lambda>k. 0 < k)
           (map (\<lambda>b. count_true (in_bin_mask p (fst b) (snd b))) (bin_edges n))"
    by (auto simp: calculate_reliability_def)
  then show ?thesis
    using binned_entries[OF assms(2), of p] by (simp add: sum_list_filter_pos)
qed

text \<open>
  C2. The claim: every probability, 0.0 and 1.0 included, falls in exactly one bin (the last bin
  closed at 1.0), so the emitted bin counts add up to the number of entries. The code tests
  \<^verbatim>\<open>y_pred_proba < bin_upper\<close> in every bin, the last one too: of the two entries of
  \<open>[1.0, 0.0]\<close> only 0.0 is binned, one bin of count 1 is emitted, and the fifteen bins of the
  ECE hold one entry together.
\<close>

theorem reliability_drops_one:
  "calculate_reliability (Arr2 2 [[1, 0]]) (Arr2 2 [[1, 0]]) 10
     = Inr \<lparr>accuracies = [0], confidences = [0], bin_sizes = [1]\<rparr>
   \<and> length (flat (Arr2 2 [[1, 0]])) = 2
   \<and> sum_list (map (\<lambda>b. count_true (in_bin_mask (Arr2 2 [[1, 0]]) (fst b) (snd b)))
         (bin_edges 15)) = 1"
  by (simp add: calculate_reliability_def bin_edges_def linspace01_def upt_rec
      in_bin_mask_def count_true_def bool_index_def mask_select_def)

section \<open>The range of the expected calibration error\<close>

lemma mask_select_diff:
  fixes ys ps :: "real list"
  shows "length ys = length ps \<Longrightarrow> length ps = length ms \<Longrightarrow>
     sum_list (mask_select ys ms) - sum_list (mask_select ps ms)
       = sum_list (mask_select (map2 (\<lambda>y p. y - p) ys ps) ms)"
  by (induction ys ps ms rule: list_induct3) (simp_all add: mask_select_def)

lemma set_mask_select: "set (mask_select xs ms) \<subseteq> set xs"
  by (auto simp: mask_select_def dest: set_zip_leftD)

lemma abs_sum_list_le_length:
  fixes ds :: "real list"
  shows "list_all (\<lambda>d. \<bar>d\<bar> \<le> 1) ds \<Longrightarrow> \<bar>sum_list ds\<bar> \<le> real (length ds)"
proof (induction ds)
  case Nil
  then show ?case by simp
next
  case (Cons d ds)
  then have "\<bar>d\<bar> \<le> 1" and "\<bar>sum_list ds\<bar> \<le> real (length ds)" by simp_all
  then show ?case by simp
qed

lemma ece_bin_term_le_count:
  assumes len: "length (flat y) = length (flat p)"
    and gaps: "list_all (\<lambda>d. \<bar>d\<bar> \<le> 1) (map2 (\<lambda>y p. y - p) (flat y) (flat p))"
  shows "0 \<le> ece_bin_term p y b
         \<and> ece_bin_term p y b \<le> real (count_true (in_bin_mask p (fst b) (snd b)))"
proof -
  let ?ms = "in_bin_mask p (fst b) (snd b)"
  let ?k = "count_true ?ms"
  let ?ds = "map2 (\<lambda>y p. y - p) (flat y) (flat p)"
  show ?thesis
  proof (cases "0 < ?k")
    case False
    then show ?thesis by (simp add: ece_bin_term_def Let_def)
  next
    case True
    have lm: "length (flat p) = length ?ms" by (simp add: length_in_bin_mask)
    have "ece_bin_term p y b
          = real ?k * \<bar>(sum_list (mask_select (flat y) ?ms) - sum_list (mask_select (flat p) ?ms)) / real ?k\<bar>"
      using True by (simp add: ece_bin_term_def Let_def diff_divide_distrib)
    also have "\<dots> = \<bar>sum_list (mask_select (flat y) ?ms) - sum_list (mask_select (flat p) ?ms)\<bar>"
      using True by (simp add: abs_divide)
    also have "\<dots> = \<bar>sum_list (mask_select ?ds ?ms)\<bar>"
      by (simp only: mask_select_diff[OF len lm])
    finally have eq: "ece_bin_term p y b = \<bar>sum_list (mask_select ?ds ?ms)\<bar>" .
    have "list_all (\<lambda>d. \<bar>d\<bar> \<le> 1) (mask_select ?ds ?ms)"
      using gaps set_mask_select[of ?ds ?ms] by (auto simp: list_all_iff)
    then have "\<bar>sum_list (mask_select ?ds ?ms)\<bar> \<le> real (length (mask_select ?ds ?ms))"
      by (rule abs_sum_list_le_length)
    also have "length (mask_select ?ds ?ms) = ?k"
      using len by (intro length_mask_select) (simp add: length_in_bin_mask)
    finally show ?thesis by (simp add: eq)
  qed
qed

lemma real_sum_list_map:
  "sum_list (map (\<lambda>b. real (f b)) bs) = real (sum_list (map f bs))"
  by (induction bs) simp_all

text \<open>
  When every label differs from its probability by at most 1 (labels 0 or 1, probabilities in
  \<open>[0, 1]\<close>), the sum over the bins is at most the number of entries: divided by the number of
  entries it lies in \<open>[0, 1]\<close>.
\<close>

lemma ece_bin_sum_le_entries:
  assumes "length (flat y) = length (flat p)"
    and "list_all (\<lambda>d. \<bar>d\<bar> \<le> 1) (map2 (\<lambda>y p. y - p) (flat y) (flat p))"
    and "0 < n"
  shows "0 \<le> ece_bin_sum p y n \<and> ece_bin_sum p y n \<le> real (length (flat p))"
proof -
  have nn: "0 \<le> ece_bin_sum p y n"
    unfolding ece_bin_sum_def
    using ece_bin_term_le_count[OF assms(1,2)] by (intro sum_list_nonneg) auto
  have "ece_bin_sum p y n
        \<le> sum_list (map (\<lambda>b. real (count_true (in_bin_mask p (fst b) (snd b)))) (bin_edges n))"
    unfolding ece_bin_sum_def
    using ece_bin_term_le_count[OF assms(1,2)] by (intro sum_list_mono) simp
  also have "\<dots> = real (sum_list (map (\<lambda>b. count_true (in_bin_mask p (fst b) (snd b))) (bin_edges n)))"
    by (rule real_sum_list_map)
  also have "\<dots> = real (length (filter (\<lambda>v. 0 \<le> v \<and> v < 1) (flat p)))"
    by (simp only: binned_entries[OF assms(3)])
  also have "\<dots> \<le> real (length (flat p))"
    by simp
  finally show ?thesis using nn by simp
qed

text \<open>
  C3. The claim: on a valid input (entries in \<open>[0, 1]\<close>, rows summing to 1, one-hot labels) the
  ECE that \<^verbatim>\<open>evaluate_calibration\<close> returns lies in \<open>[0, 1]\<close>. For the valid sample
  \<open>[0.9, 0.05, 0.05]\<close> with the true class 1, the bins contribute \<open>2 * 0.45\<close> and \<open>0.9\<close>, and the
  division by the single row returns 1.8.
\<close>

theorem ece_exceeds_one:
  "valid_probability_matrix (Arr2 3 [[9/10, 1/20, 1/20]])
   \<and> map_sum id ece (evaluate_calibration brier_score_loss_ref
        (Arr2 3 [[9/10, 1/20, 1/20]]) (Arr2 3 [[0, 1, 0]])) = Inr (9/5)"
  by (simp add: valid_probability_row_def evaluate_calibration_def brier_score_loss_ref_def
      calculate_reliability_def calculate_ece_def bin_edges_def linspace01_def upt_rec
      in_bin_mask_def count_true_def bool_index_def mask_select_def)

section \<open>Class-index labels in the metric engine\<close>

lemma evaluate_calibration_on_indices:
  "evaluate_calibration bsl (Arr2 (Suc c) rs) (Arr1 ys) = Inl IndexError"
  by (simp add: evaluate_calibration_def upt_conv_Cons del: upt_Suc)

lemma prepare_labels_1d:
  "prepare_calibration_data E self X y = Inr (p, yb) \<Longrightarrow> \<exists>ks. yb = Arr1 ks"
  unfolding prepare_calibration_data_def
  by (auto split: sum.splits option.splits)

lemma evaluate_calibration_1d_columns:
  "evaluate_calibration bsl p (Arr1 ks) = Inr m \<Longrightarrow> \<exists>rs. p = Arr2 0 rs"
proof (cases p)
  case (Arr1 xs)
  assume "evaluate_calibration bsl p (Arr1 ks) = Inr m"
  with Arr1 show ?thesis by (simp add: evaluate_calibration_def)
next
  case (Arr2 c rs)
  assume "evaluate_calibration bsl p (Arr1 ks) = Inr m"
  with Arr2 show ?thesis by (cases c) (simp_all add: evaluate_calibration_on_indices)
qed

lemma apply_temperature_scaling_no_columns:
  "apply_temperature_scaling (Arr2 0 rs) t = Inl ValueError"
  by (simp add: apply_temperature_scaling_def)

text \<open>
  No run of \<^verbatim>\<open>calibrate_model\<close> returns: the labels it passes on are class indices, on which the
  baseline evaluation raises as soon as there is a class.
\<close>

lemma calibrate_loaded_raises:
  "\<exists>e. snd (snd (calibrate_loaded E self fs X_val y_val)) = Inl e"
  unfolding calibrate_loaded_def
  by (auto simp: Let_def apply_temperature_scaling_no_columns
      split: sum.splits option.splits prod.splits
      dest!: prepare_labels_1d evaluate_calibration_1d_columns)

lemma calibrate_model_raises:
  "\<exists>e. snd (snd (calibrate_model E self fs X_val y_val)) = Inl e"
  unfolding calibrate_model_def load_model_def
  using calibrate_loaded_raises
  by (auto split: sum.splits option.splits prod.splits)

text \<open>
  On one-hot labels the evaluation runs: the specification's scenario has the Brier score 0.025.
\<close>

lemma brier_scenario_one_hot:
  "map_sum id brier_score (evaluate_calibration brier_score_loss_ref
      (Arr2 2 [[9/10, 1/10], [1/5, 4/5]]) (Arr2 2 [[1, 0], [0, 1]])) = Inr (Some (1/40))"
  by (simp add: evaluate_calibration_def brier_score_loss_ref_def np_mean_def power2_eq_square
      calculate_reliability_def calculate_ece_def bin_edges_def linspace01_def upt_rec
      in_bin_mask_def count_true_def bool_index_def mask_select_def)

text \<open>
  C4. The claim: class-index labels, as the orchestrator passes them after its argmax, are
  converted to one-hot before the per-class loop of the Brier score, so that \<^verbatim>\<open>y_true[:, i]\<close>
  is defined. The code converts nothing: for the predictions \<open>[[0.9, 0.1], [0.2, 0.8]]\<close> and the
  one-hot labels of the classes 0 and 1, \<^verbatim>\<open>prepare_calibration_data\<close> yields the indices
  \<open>[0, 1]\<close>, \<^verbatim>\<open>evaluate_calibration\<close> raises IndexError on them at the first class, and so does
  \<^verbatim>\<open>calibrate_model\<close>.
\<close>

theorem calibrate_model_index_error:
  "prepare_calibration_data (stub_env (Arr2 2 [[9/10, 1/10], [1/5, 4/5]]) None)
      ((init ''models/mobilenet_v2_final.h5'')\<lparr>model := Some ()\<rparr>) () (Arr2 2 [[1, 0], [0, 1]])
      = Inr (Arr2 2 [[9/10, 1/10], [1/5, 4/5]], Arr1 [0, 1])
   \<and> evaluate_calibration brier_score_loss_ref (Arr2 2 [[9/10, 1/10], [1/5, 4/5]]) (Arr1 [0, 1])
      = Inl IndexError
   \<and> snd (snd (calibrate_model (stub_env (Arr2 2 [[9/10, 1/10], [1/5, 4/5]]) None)
         (init ''models/mobilenet_v2_final.h5'') Map.empty () (Arr2 2 [[1, 0], [0, 1]])))
      = Inl IndexError"
  by (simp add: prepare_calibration_data_def stub_env_def init_def evaluate_calibration_def
      calibrate_model_def load_model_def calibrate_loaded_def upt_rec)

section \<open>What the Platt fit is given\<close>

lemma row_argmax_one_hot: "k < c \<Longrightarrow> row_argmax (one_hot c k) = k"
proof (induction k arbitrary: c)
  case 0
  then obtain c' where "c = Suc c'" by (cases c) auto
  then show ?case by (simp add: one_hot_def list_all_iff)
next
  case (Suc k)
  then obtain c' where c: "c = Suc c'" and k: "k < c'" by (cases c) auto
  have "(1::real) \<in> set ((replicate c' 0)[k := 1])"
    using k by (metis length_replicate set_update_memI)
  then have "\<not> list_all (\<lambda>v. v \<le> (0::real)) ((replicate c' 0)[k := 1])"
    by (auto simp: list_all_iff intro!: bexI[of _ 1])
  then show ?case using Suc.IH[OF k] c by (simp add: one_hot_def)
qed

lemma row_max_Max: "r \<noteq> [] \<Longrightarrow> row_max r = Max (set r)"
  by (cases r) (simp_all add: Max.set_eq_fold[symmetric])

text \<open>
  C5. The claim: the Platt scaler fits on the largest predicted probability of each sample and,
  as target, on the 0/1 indicator that the predicted class is the true class. The code passes
  \<^verbatim>\<open>np.argmax(y_true, axis=1)\<close> as target, which does not look at the predictions: for the
  sample \<open>[0.9, 0.1]\<close> of true class 1 the target is the class index 1, the indicator is 0.
\<close>

theorem platt_target_not_correctness:
  "platt_fit_args (Arr2 2 [[9/10, 1/10]]) (Arr2 2 [[0, 1]]) = Inr (Arr2 1 [[9/10]], [1])
   \<and> correctness_target (Arr2 2 [[9/10, 1/10]]) (Arr2 2 [[0, 1]]) = [0]"
  by (simp add: platt_fit_args_def correctness_target_def)

text \<open>
  C5, as the code has it: with at least one class and one-hot labels of the classes \<open>ks\<close>, the
  fit receives the one-column matrix of the row maxima as features and the true class indices
  \<open>ks\<close> themselves as target, and \<^verbatim>\<open>platt_scaling\<close> returns the first coefficient and the first
  intercept of the fit.
\<close>

theorem platt_target_is_true_class:
  assumes "0 < c" and "list_all (\<lambda>k. k < c) ks"
  shows "platt_fit_args (Arr2 c rs) (Arr2 c (map (one_hot c) ks))
           = Inr (Arr2 1 (map (\<lambda>r. [row_max r]) rs), ks)
         \<and> platt_scaling lr_fit (Arr2 c rs) (Arr2 c (map (one_hot c) ks))
           = (case lr_fit (Arr2 1 (map (\<lambda>r. [row_max r]) rs)) ks of
                Inl e \<Rightarrow> Inl e
              | Inr (coef, intercept) \<Rightarrow>
                  (case coef of
                     (a # _) # _ \<Rightarrow> (case intercept of b # _ \<Rightarrow> Inr (a, b) | [] \<Rightarrow> Inl IndexError)
                   | _ \<Rightarrow> Inl IndexError))"
proof -
  have "map row_argmax (map (one_hot c) ks) = ks"
    using assms(2) by (simp add: list_all_iff row_argmax_one_hot map_idI)
  then have args: "platt_fit_args (Arr2 c rs) (Arr2 c (map (one_hot c) ks))
                     = Inr (Arr2 1 (map (\<lambda>r. [row_max r]) rs), ks)"
    using assms(1) by (simp add: platt_fit_args_def comp_def)
  then show ?thesis by (simp add: platt_scaling_def)
qed

theorem platt_target_is_true_class_witness:
  "(0::nat) < 2 \<and> list_all (\<lambda>k. k < 2) [1, 0::nat]
   \<and> platt_fit_args (Arr2 2 [[9/10, 1/10], [1/5, 4/5]]) (Arr2 2 (map (one_hot 2) [1, 0]))
        = Inr (Arr2 1 [[9/10], [4/5]], [1, 0])
   \<and> platt_scaling (\<lambda>X t. Inr ([[3]], [2])) (Arr2 2 [[9/10, 1/10], [1/5, 4/5]])
        (Arr2 2 (map (one_hot 2) [1, 0])) = Inr (3, 2)"
  using platt_target_is_true_class[of 2 "[1, 0]" "[[9/10, 1/10], [1/5, 4/5]]" "\<lambda>X t. Inr ([[3]], [2])"]
  by simp

section \<open>The calibration history\<close>




section \<open>The temperature fit on degenerate input\<close>

lemma objective_empty:
  "0 < c \<Longrightarrow> objective (Arr2 c []) (Arr2 c []) T = Inr None"
  by (simp add: objective_def broadcast_mul_def bc_dim_def stretch_def np_mean_def)

lemma objective_single_label_row:
  assumes "0 < c"
  shows "\<exists>v. objective (Arr2 c rs) (Arr2 c [yrow]) T = Inr v"
  using assms by (simp add: objective_def broadcast_mul_def bc_dim_def)

text \<open>
  C7. The claim: on an empty dataset, or on mismatched shapes, the temperature fit fails with an
  InvalidInput error before any fit begins. On the empty dataset of shape \<open>(0, 3)\<close> the code
  runs the optimizer; with an optimizer that stays at its initial guess it returns the
  temperature 1.0 and no error.
\<close>

theorem temperature_fit_accepts_empty:
  "temperature_scaling minimize_stalled (Arr2 3 []) (Arr2 3 []) = Inr 1"
  by (simp add: temperature_scaling_def minimize_stalled_def objective_empty)

text \<open>
  C7, as the code has it: \<^verbatim>\<open>temperature_scaling\<close> checks nothing before it fits. On an empty
  dataset with at least one class the objective is NaN at every temperature, the optimizer is
  run on it from the initial guess 1.0 within the bounds \<open>(0.1, 10.0)\<close>, and the first
  coordinate of its answer is returned; labels of a single row are accepted against any number
  of samples, the objective broadcasting them without an exception.
\<close>

theorem temperature_scaling_unvalidated:
  assumes "0 < c"
  shows "objective (Arr2 c []) (Arr2 c []) T = Inr None
         \<and> temperature_scaling mnz (Arr2 c []) (Arr2 c [])
           = (case mnz (\<lambda>T. Inr None) 1 [(1 / 10, 10)] of
                Inl e \<Rightarrow> Inl e
              | Inr x \<Rightarrow> (case x of [] \<Rightarrow> Inl IndexError | t # _ \<Rightarrow> Inr t))
         \<and> (\<exists>v. objective (Arr2 c rs) (Arr2 c [yrow]) T = Inr v)"
proof -
  have "objective (Arr2 c []) (Arr2 c []) = (\<lambda>T. Inr None)"
    using assms by (intro ext) (rule objective_empty)
  then show ?thesis
    using assms by (simp add: temperature_scaling_def objective_single_label_row)
qed

theorem temperature_scaling_unvalidated_witness:
  "(0::nat) < 2
   \<and> objective (Arr2 2 []) (Arr2 2 []) 5 = Inr None
   \<and> temperature_scaling minimize_stalled (Arr2 2 []) (Arr2 2 []) = Inr 1
   \<and> (\<exists>v. objective (Arr2 2 [[1/2, 1/2], [1/4, 3/4]]) (Arr2 2 [[1, 0]]) 5 = Inr v)"
  using temperature_scaling_unvalidated[of 2 5 minimize_stalled "[[1/2, 1/2], [1/4, 3/4]]" "[1, 0]"]
  by (simp add: minimize_stalled_def)

section \<open>Persistence\<close>

lemma file_write_open:
  "file_write path chunk (fs(path \<mapsto> content)) = fs(path \<mapsto> content @ chunk)"
  by (simp add: file_write_def)

lemma fold_file_write:
  "fold (file_write path) chunks (fs(path \<mapsto> content)) = fs(path \<mapsto> content @ concat chunks)"
  by (induction chunks arbitrary: content) (simp_all add: file_write_open)

lemma json_dump_truncated:
  "fold (file_write path) chunks (fs(path \<mapsto> [])) = fs(path \<mapsto> concat chunks)"
  by (simp add: fold_file_write)

text \<open>
  C8. The claim: when the write of the parameters fails, the failure reaches the caller and the
  destination holds either the complete new document or the previous one, unchanged. With a
  previous document \<open>old\<close> and a disk that fails at the second chunk, the failure reaches the
  caller and the destination holds the first chunk alone.
\<close>

theorem save_leaves_partial_document:
  "snd (save_calibration_params (stub_env (Arr2 0 []) (Some (1, OSError))) (init ''m'')
          ''results/calibration_params.json'' [''results/calibration_params.json'' \<mapsto> ''old''])
     = Inl OSError
   \<and> fst (save_calibration_params (stub_env (Arr2 0 []) (Some (1, OSError))) (init ''m'')
          ''results/calibration_params.json'' [''results/calibration_params.json'' \<mapsto> ''old''])
        ''results/calibration_params.json'' = Some ''{''
   \<and> concat (json_chunks (stub_env (Arr2 0 []) (Some (1, OSError)))
                (calibration_data_of (init ''m''))) = ''{temperature: 1.0}''"
  by (simp add: save_calibration_params_def json_dump_def file_write_def stub_env_def init_def)

text \<open>
  C8, as the code has it: a failure is handed to the caller; \<^verbatim>\<open>save_calibration_params\<close> writes
  in place. When the file cannot be opened the store is unchanged. Once it is opened the previous
  content is gone: after a failure at chunk \<open>k\<close> the destination holds the first \<open>k\<close> chunks of
  the new document, and without a failure the complete new document.
\<close>

theorem save_overwrites_in_place:
  "save_calibration_params E self save_path fs =
     (case open_fault E save_path of
        Some e \<Rightarrow> (fs, Inl e)
      | None \<Rightarrow>
          (case write_fault E of
             None \<Rightarrow> (fs(save_path \<mapsto> concat (json_chunks E (calibration_data_of self))), Inr ())
           | Some (k, e) \<Rightarrow>
               if k < length (json_chunks E (calibration_data_of self))
               then (fs(save_path \<mapsto> concat (take k (json_chunks E (calibration_data_of self)))), Inl e)
               else (fs(save_path \<mapsto> concat (json_chunks E (calibration_data_of self))), Inr ())))"
  by (simp add: save_calibration_params_def json_dump_def json_dump_truncated Let_def
      split: option.splits)

section \<open>Softmax rows are probability vectors\<close>










section \<open>Temperature 1\<close>












end
